theory Spec2Isabelle
  imports Complex_Main "HOL-Library.Log_Nat"
begin

section \<open>Numbers\<close>

text \<open>
  A JavaScript \<^verbatim>\<open>number\<close> is a double-precision value of IEEE 754: a finite double, an
  infinity or NaN. The finite doubles are the numbers \<open>m * 2 ^ e\<close> with integers
  \<open>\<bar>m\<bar> < 2 ^ 53\<close> and \<open>- 1074 \<le> e \<le> 971\<close>, so each of them is an integer multiple of
  \<open>2 ^ - 1074\<close>. The type \<open>number\<close> holds the value of a finite double as a real.

  An arithmetic operation of JavaScript returns the exact result rounded to the nearest
  double, a tie going to the even mantissa. \<open>fl\<close> is this rounding. It works on the
  magnitude counted in units of \<open>2 ^ - 1074\<close>: \<open>shift\<close> is the number of low bits of
  that count which do not fit into 53 bits, \<open>rne\<close> rounds a real to the nearest integer
  with ties to even, and \<open>round53\<close> rounds the low bits away. \<open>fl\<close> has no upper
  limit; where the rounded result lies beyond \<open>MAX_VALUE\<close>, the largest finite double,
  JavaScript returns an infinity instead (\<open>overflows\<close>). The sign of zero is not
  modelled: no operation in this development tells \<^verbatim>\<open>-0\<close> from \<^verbatim>\<open>0\<close>.
\<close>

type_synonym number = real

definition rne :: "real \<Rightarrow> int" where
  "rne y =
     (let f = \<lfloor>y\<rfloor> in
      if y - of_int f < 1 / 2 then f
      else if y - of_int f > 1 / 2 then f + 1
      else if even f then f else f + 1)"

definition shift :: "real \<Rightarrow> nat" where
  "shift y = nat (bitlen \<lfloor>y\<rfloor> - 53)"

definition round53 :: "real \<Rightarrow> real" where
  "round53 y = of_int (rne (y / 2 ^ shift y)) * 2 ^ shift y"

definition fl :: "real \<Rightarrow> number" where
  "fl x = sgn x * round53 (\<bar>x\<bar> * 2 ^ 1074) / 2 ^ 1074"

definition MAX_VALUE :: number where
  "MAX_VALUE = (2 ^ 53 - 1) * 2 ^ 971"

definition overflows :: "real \<Rightarrow> bool" where
  "overflows x = (MAX_VALUE < \<bar>fl x\<bar>)"

text \<open>
  \<open>near y m\<close>: the integer \<open>m\<close> is what \<open>y\<close> rounds to. It serves to evaluate \<open>fl\<close>
  at a given number.
\<close>

definition near :: "real \<Rightarrow> int \<Rightarrow> bool" where
  "near y m = (\<bar>y - of_int m\<bar> < 1 / 2 \<or> (\<bar>y - of_int m\<bar> = 1 / 2 \<and> even m))"

text \<open>
  In the message handler NaN arises only as \<^verbatim>\<open>undefined * 10\<close>; \<open>jsnum\<close> is a
  finite number or that NaN.
\<close>

datatype jsnum = NaN | Num number

section \<open>Values delivered by the transport\<close>

text \<open>
  The dashboard (\<^verbatim>\<open>FraudDetectionDashboard\<close>) keeps three pieces of React state,
  \<^verbatim>\<open>predictions\<close>, \<^verbatim>\<open>transactions\<close> and \<^verbatim>\<open>stats\<close>, and updates them from the
  \<^verbatim>\<open>onmessage\<close> handler of a WebSocket. A number of a JSON text is decoded to the
  nearest double and is never NaN.
\<close>

text \<open>
  A value of a JSON text. The handler only tests the field \<^verbatim>\<open>message\<close> for
  truthiness, so that field is kept as an arbitrary JSON value.
\<close>

datatype json =
    JNull
  | JBool bool
  | JNum number
  | JStr string
  | JArr "json list"
  | JObj "(string \<times> json) list"

text \<open>
  JavaScript's ToBoolean on the value of a property; \<open>None\<close> is \<^verbatim>\<open>undefined\<close>
  (the property is absent). Objects and arrays are truthy, also when empty.
\<close>

fun truthy :: "json option \<Rightarrow> bool" where
  "truthy None = False"
| "truthy (Some JNull) = False"
| "truthy (Some (JBool b)) = b"
| "truthy (Some (JNum x)) = (x \<noteq> 0)"
| "truthy (Some (JStr s)) = (s \<noteq> [])"
| "truthy (Some (JArr xs)) = True"
| "truthy (Some (JObj kvs)) = True"

text \<open>
  Modelled from the spec: the interfaces \<^verbatim>\<open>Prediction\<close> and \<^verbatim>\<open>Transaction\<close> of
  \<^verbatim>\<open>../types/types\<close>, which the components import and which is not among the sources.
  Section 6 of the specification gives them as
  \<^verbatim>\<open>Prediction = { logistic?: 0|1, random_forest?: 0|1, xgboost?: 0|1 }\<close> and
  \<^verbatim>\<open>Transaction = { transaction_id?: string, Time?: number, Amount?: number, Class?: 0|1, V1?: number, ... }\<close>.
  Every field is optional; \<open>None\<close> is \<^verbatim>\<open>undefined\<close>. The flags are numbers at run
  time, so they are not restricted to 0 and 1 here. Of the feature fields only
  \<^verbatim>\<open>V1\<close> is read by the code.
\<close>

record Prediction =
  logistic :: "number option"
  random_forest :: "number option"
  xgboost :: "number option"

record Transaction =
  transaction_id :: "string option"
  Time :: "number option"
  Amount :: "number option"
  Class :: "number option"
  V1 :: "number option"

text \<open>
  The object \<^verbatim>\<open>JSON.parse(event.data)\<close> returns, seen through the four properties the
  handler reads: \<^verbatim>\<open>data.message\<close>, \<^verbatim>\<open>data.predictions\<close>, \<^verbatim>\<open>data.prediction\<close>
  and \<^verbatim>\<open>data.transaction\<close>. For the three payload properties \<open>None\<close> stands for a
  property that is absent or holds \<^verbatim>\<open>null\<close> (both falsy), \<open>Some\<close> for an object
  (always truthy). A payload property that holds anything else does not have the
  declared type and is not covered; the same goes for a field of a payload, where
  \<open>None\<close> again stands for absent or \<^verbatim>\<open>null\<close>, which the functions modelled
  here treat alike.
\<close>

record Data =
  data_message :: "json option"
  data_predictions :: "Prediction option"
  data_prediction :: "Prediction option"
  data_transaction :: "Transaction option"

text \<open>
  What \<^verbatim>\<open>JSON.parse(event.data)\<close> makes of a frame. A frame that is not a JSON text
  makes it throw; the text \<^verbatim>\<open>null\<close> decodes to \<^verbatim>\<open>null\<close>; a number, string, boolean
  or array (\<open>JsonOther\<close>) has none of the four properties.
\<close>

datatype frame =
    NotJSON
  | JsonNull
  | JsonOther
  | JsonObject Data

datatype error = SyntaxError | TypeError

section \<open>The dashboard state\<close>

record Stats =
  total' :: number
  flagged :: number
  recentVolume :: number

record State =
  predictions :: "Prediction list"
  transactions :: "Transaction list"
  stats :: Stats

text \<open>The initial values given to \<^verbatim>\<open>useState\<close>.\<close>

definition initialState :: State where
  "initialState =
     \<lparr>predictions = [], transactions = [],
      stats = \<lparr>total' = 0, flagged = 0, recentVolume = 0\<rparr>\<rparr>"

section \<open>The classification rule\<close>

text \<open>
  \<^verbatim>\<open>isFlaggedAsFraud\<close>: \<^verbatim>\<open>if (!prediction) return false;\<close> and then the disjunction
  of the three strict comparisons with 1, in the source's order. The argument is
  \<open>None\<close> when the caller passes \<^verbatim>\<open>undefined\<close> or \<^verbatim>\<open>null\<close>.
\<close>

fun isFlaggedAsFraud :: "Prediction option \<Rightarrow> bool" where
  "isFlaggedAsFraud None = False"
| "isFlaggedAsFraud (Some prediction) =
     (xgboost prediction = Some 1 \<or>
      random_forest prediction = Some 1 \<or>
      logistic prediction = Some 1)"

section \<open>The message handler\<close>

text \<open>
  The state keeps \<^verbatim>\<open>recentVolume\<close> as a finite number, and the handler's arithmetic
  is modelled on the finite range: a product or a sum is the exact result rounded by
  \<open>fl\<close>. Where such a result overflows, JavaScript stores \<^verbatim>\<open>Infinity\<close>, which this
  state cannot hold; the statements about \<^verbatim>\<open>recentVolume\<close> in C2 and C3 are made
  where nothing overflows. The two counters hold integers, on which adding 1 is exact
  below \<open>2 ^ 53\<close>; they are not rounded.

  \<^verbatim>\<open>data.transaction.Amount * 10\<close>: ToNumber of \<^verbatim>\<open>undefined\<close> is NaN, and so is the
  product.
\<close>

fun times10 :: "number option \<Rightarrow> jsnum" where
  "times10 None = NaN"
| "times10 (Some a) = Num (fl (a * 10))"

text \<open>\<^verbatim>\<open>x || 0\<close> for a number \<^verbatim>\<open>x\<close>: NaN and 0 are falsy.\<close>

fun jsnum_or0 :: "jsnum \<Rightarrow> number" where
  "jsnum_or0 NaN = 0"
| "jsnum_or0 (Num x) = (if x = 0 then 0 else x)"

text \<open>\<^verbatim>\<open>data.transaction.Amount || 0\<close>: \<^verbatim>\<open>undefined\<close> and 0 are falsy.\<close>

fun amount_or0 :: "number option \<Rightarrow> number" where
  "amount_or0 None = 0"
| "amount_or0 (Some a) = (if a = 0 then 0 else a)"

text \<open>
  The updater passed to \<^verbatim>\<open>setStats\<close> in the branch
  \<^verbatim>\<open>if (data.predictions && data.transaction)\<close>.
\<close>

definition updateStats_predictions :: "Prediction \<Rightarrow> Transaction \<Rightarrow> Stats \<Rightarrow> Stats" where
  "updateStats_predictions ps tx prevStats =
     (let isFraudulent = isFlaggedAsFraud (Some ps) in
      \<lparr>total' = total' prevStats + 1,
       flagged = (if isFraudulent then flagged prevStats + 1 else flagged prevStats),
       recentVolume = fl (recentVolume prevStats + jsnum_or0 (times10 (Amount tx)))\<rparr>)"

text \<open>
  The updater passed to \<^verbatim>\<open>setStats\<close> in the branch \<^verbatim>\<open>else if (data.prediction)\<close>,
  under \<^verbatim>\<open>if (data.transaction)\<close>.
\<close>

definition updateStats_prediction :: "Prediction \<Rightarrow> Transaction \<Rightarrow> Stats \<Rightarrow> Stats" where
  "updateStats_prediction p tx prevStats =
     (let isFraudulent = isFlaggedAsFraud (Some p) in
      \<lparr>total' = total' prevStats + 1,
       flagged = (if isFraudulent then flagged prevStats + 1 else flagged prevStats),
       recentVolume = fl (recentVolume prevStats + amount_or0 (Amount tx))\<rparr>)"

text \<open>
  The body of \<^verbatim>\<open>socket.onmessage\<close> after \<^verbatim>\<open>JSON.parse\<close>, on an object. The
  functional updates of the three state variables are applied in the order they are
  queued.
\<close>

definition dispatch :: "Data \<Rightarrow> State \<Rightarrow> State" where
  "dispatch data s =
     (if truthy (data_message data) then s
      else
        (case (data_predictions data, data_transaction data) of
          (Some ps, Some tx) \<Rightarrow>
            s\<lparr>predictions := predictions s @ [ps],
              transactions := transactions s @ [tx],
              stats := updateStats_predictions ps tx (stats s)\<rparr>
        | _ \<Rightarrow>
            (case data_prediction data of
              Some p \<Rightarrow>
                (let s1 = s\<lparr>predictions := predictions s @ [p]\<rparr> in
                 (case data_transaction data of
                   Some tx \<Rightarrow>
                     s1\<lparr>transactions := transactions s1 @ [tx],
                        stats := updateStats_prediction p tx (stats s1)\<rparr>
                 | None \<Rightarrow> s1))
            | None \<Rightarrow> s)))"

text \<open>
  \<^verbatim>\<open>socket.onmessage\<close>. \<^verbatim>\<open>JSON.parse\<close> throws a SyntaxError on a frame that is
  not JSON, and \<^verbatim>\<open>data.message\<close> throws a TypeError when \<^verbatim>\<open>data\<close> is \<^verbatim>\<open>null\<close>;
  neither is caught. Reading a property of a number, string, boolean or array gives
  \<^verbatim>\<open>undefined\<close>, so no branch is taken.
\<close>

fun onmessage :: "frame \<Rightarrow> State \<Rightarrow> error + State" where
  "onmessage NotJSON s = Inl SyntaxError"
| "onmessage JsonNull s = Inl TypeError"
| "onmessage JsonOther s = Inr s"
| "onmessage (JsonObject data) s = Inr (dispatch data s)"

text \<open>
  Delivery of one frame and of a sequence of frames. An exception thrown by the handler
  is thrown before any state update is queued, so it leaves the state as it was, and the
  socket goes on delivering.
\<close>

definition deliver :: "State \<Rightarrow> frame \<Rightarrow> State" where
  "deliver s ev = (case onmessage ev s of Inl e \<Rightarrow> s | Inr s' \<Rightarrow> s')"

definition deliver_all :: "State \<Rightarrow> frame list \<Rightarrow> State" where
  "deliver_all s evs = foldl deliver s evs"

text \<open>The two payload shapes, as the handler's conditions test them.\<close>

definition shape1 :: "Data \<Rightarrow> bool" where
  "shape1 data = (data_predictions data \<noteq> None \<and> data_transaction data \<noteq> None)"

definition shape2 :: "Data \<Rightarrow> bool" where
  "shape2 data = (\<not> shape1 data \<and> data_prediction data \<noteq> None)"

definition frame_shape1 :: "frame \<Rightarrow> bool" where
  "frame_shape1 ev = (case ev of JsonObject data \<Rightarrow> shape1 data | _ \<Rightarrow> False)"

definition frame_shape2 :: "frame \<Rightarrow> bool" where
  "frame_shape2 ev = (case ev of JsonObject data \<Rightarrow> shape2 data | _ \<Rightarrow> False)"



text \<open>The Amount a frame carries, if it carries one, is not negative.\<close>

definition amount_nonneg :: "frame \<Rightarrow> bool" where
  "amount_nonneg ev =
     (case ev of
        JsonObject data \<Rightarrow>
          (case data_transaction data of
             Some tx \<Rightarrow> (case Amount tx of Some a \<Rightarrow> 0 \<le> a | None \<Rightarrow> True)
           | None \<Rightarrow> True)
      | _ \<Rightarrow> True)"

section \<open>The connection and its retries\<close>

text \<open>
  The effect of the dashboard keeps the counter \<^verbatim>\<open>reconnectAttempts\<close> in a closure
  shared by every socket it makes; \<^verbatim>\<open>connectionStatus\<close> is React state. Besides these
  two the model records what the environment knows: how far the socket made by the
  latest \<^verbatim>\<open>connectToServer\<close> has come (\<open>Awaiting\<close>: made, no event fired yet or only
  errors; \<open>Opened\<close>: its open event has fired; \<open>Closed\<close>: its close event has
  fired), and the timer set by \<^verbatim>\<open>setTimeout\<close> that has not fired yet, with its delay in
  milliseconds. The cleanup function of the effect is not part of the model.
\<close>

datatype ConnectionStatus = Connecting | Connected | Disconnected

datatype socket_phase = Awaiting | Opened | Closed

record Connector =
  reconnectAttempts :: nat
  connectionStatus :: ConnectionStatus
  socket :: socket_phase
  timer :: "nat option"

definition maxReconnectAttempts :: nat where
  "maxReconnectAttempts = 5"

text \<open>\<^verbatim>\<open>connectToServer\<close>: sets the status and makes a new socket.\<close>

definition connectToServer :: "Connector \<Rightarrow> Connector" where
  "connectToServer c = c\<lparr>connectionStatus := Connecting, socket := Awaiting\<rparr>"

definition onopen :: "Connector \<Rightarrow> Connector" where
  "onopen c = c\<lparr>connectionStatus := Connected, reconnectAttempts := 0\<rparr>"

definition onerror :: "Connector \<Rightarrow> Connector" where
  "onerror c = c\<lparr>connectionStatus := Disconnected\<rparr>"

text \<open>
  \<^verbatim>\<open>socket.onclose\<close>: the delay is \<^verbatim>\<open>Math.pow(2, reconnectAttempts) * 1000\<close>
  milliseconds; at the ceiling nothing is scheduled.
\<close>

definition onclose :: "Connector \<Rightarrow> Connector" where
  "onclose c =
     (let c1 = c\<lparr>connectionStatus := Disconnected\<rparr> in
      if reconnectAttempts c1 < maxReconnectAttempts then
        (let timeout = 2 ^ reconnectAttempts c1 * 1000 in c1\<lparr>timer := Some timeout\<rparr>)
      else c1)"

text \<open>The callback given to \<^verbatim>\<open>setTimeout\<close>: \<^verbatim>\<open>reconnectAttempts++; connectToServer();\<close>\<close>

definition reconnect :: "Connector \<Rightarrow> Connector" where
  "reconnect c = connectToServer (c\<lparr>reconnectAttempts := reconnectAttempts c + 1\<rparr>)"

text \<open>
  The effect starts with \<^verbatim>\<open>reconnectAttempts = 0\<close> and calls \<^verbatim>\<open>connectToServer\<close>;
  before that there is no socket and no timer.
\<close>

definition initialConnector :: Connector where
  "initialConnector =
     connectToServer
       \<lparr>reconnectAttempts = 0, connectionStatus = Connecting, socket = Closed, timer = None\<rparr>"

text \<open>
  The events of the environment, and when each can happen. A WebSocket fires open at
  most once, and only as its first event apart from errors; it fires close once, and
  nothing after it; an error comes before the close. The timer fires once after it has
  been set. \<open>step\<close> runs the handler of an event that can happen and is \<open>None\<close> for one
  that cannot.
\<close>

datatype event = Open | Error | Close | Timeout

fun step :: "event \<Rightarrow> Connector \<Rightarrow> Connector option" where
  "step Open c = (if socket c = Awaiting then Some (onopen (c\<lparr>socket := Opened\<rparr>)) else None)"
| "step Error c = (if socket c \<noteq> Closed then Some (onerror c) else None)"
| "step Close c = (if socket c \<noteq> Closed then Some (onclose (c\<lparr>socket := Closed\<rparr>)) else None)"
| "step Timeout c =
     (case timer c of None \<Rightarrow> None | Some d \<Rightarrow> Some (reconnect (c\<lparr>timer := None\<rparr>)))"

fun run :: "event list \<Rightarrow> Connector \<Rightarrow> Connector option" where
  "run [] c = Some c"
| "run (e # es) c = (case step e c of None \<Rightarrow> None | Some c' \<Rightarrow> run es c')"

text \<open>The number of connection drops and of fired timers in a sequence of events.\<close>

definition drops :: "event list \<Rightarrow> nat" where
  "drops es = length (filter (\<lambda>e. e = Close) es)"

definition retries :: "event list \<Rightarrow> nat" where
  "retries es = length (filter (\<lambda>e. e = Timeout) es)"

text \<open>
  A connector that has just been started or has just opened: the counter is zero, the
  socket has not closed and no timer is pending.
\<close>

definition fresh :: "Connector \<Rightarrow> bool" where
  "fresh c = (reconnectAttempts c = 0 \<and> socket c \<noteq> Closed \<and> timer c = None)"

definition timer_inv :: "Connector \<Rightarrow> bool" where
  "timer_inv c = (timer c = None \<or> socket c = Closed)"

section \<open>The display predicates\<close>

text \<open>
  \<^verbatim>\<open>isFraudulent\<close> of \<^verbatim>\<open>TransactionHistory\<close>, with the component's \<^verbatim>\<open>predictions\<close>
  as a parameter. \<^verbatim>\<open>transaction.V1 !== undefined && transaction.V1 < -3\<close> is false for
  an absent field.
\<close>

definition isFraudulent :: "Prediction list \<Rightarrow> Transaction \<Rightarrow> nat \<Rightarrow> bool" where
  "isFraudulent preds transaction index =
     (if Class transaction = Some 1 then True
      else if index < length preds then
        (let prediction = preds ! index in
         logistic prediction = Some 1 \<or> random_forest prediction = Some 1 \<or>
         xgboost prediction = Some 1)
      else
        (case V1 transaction of None \<Rightarrow> False | Some v \<Rightarrow> v < - 3) \<or>
        (case Amount transaction of None \<Rightarrow> False | Some a \<Rightarrow> a > 1000))"

text \<open>
  The callback of \<^verbatim>\<open>transactions.filter\<close> in \<^verbatim>\<open>FraudAlerts\<close>, and the list
  \<^verbatim>\<open>fraudulentTransactions\<close> it selects. When the prediction at the index flags
  nothing, control falls through to the third method.
\<close>

definition fraudulentTransactions_filter :: "Prediction list \<Rightarrow> Transaction \<Rightarrow> nat \<Rightarrow> bool" where
  "fraudulentTransactions_filter preds transaction index =
     (if Class transaction = Some 1 then True
      else if index < length preds \<and>
              (let prediction = preds ! index in
               logistic prediction = Some 1 \<or> random_forest prediction = Some 1 \<or>
               xgboost prediction = Some 1)
      then True
      else
        (let hasNegativeV1 = (case V1 transaction of None \<Rightarrow> False | Some v \<Rightarrow> v < - 3);
             hasLargeAmount = (case Amount transaction of None \<Rightarrow> False | Some a \<Rightarrow> a > 1000)
         in hasNegativeV1 \<or> hasLargeAmount))"

definition fraudulentTransactions :: "Transaction list \<Rightarrow> Prediction list \<Rightarrow> Transaction list" where
  "fraudulentTransactions txs preds =
     map fst
       (filter (\<lambda>(transaction, index). fraudulentTransactions_filter preds transaction index)
          (zip txs [0..<length txs]))"

text \<open>
  The three signals that do not come from a Prediction: the ground-truth label, the
  feature \<^verbatim>\<open>V1\<close> and the amount.
\<close>

definition fallback_fraud :: "Transaction \<Rightarrow> bool" where
  "fallback_fraud t =
     (Class t = Some 1 \<or> (case V1 t of None \<Rightarrow> False | Some v \<Rightarrow> v < - 3) \<or>
      (case Amount t of None \<Rightarrow> False | Some a \<Rightarrow> a > 1000))"

section \<open>Anomaly detection\<close>

text \<open>
  \<^verbatim>\<open>identifyAnomalies\<close> of \<^verbatim>\<open>RealTimeChart\<close> takes a \<^verbatim>\<open>number[]\<close>, squares
  differences and compares with a threshold, so here all values of a double are
  modelled: NaN, the two infinities and the finite numbers. \<open>round_double\<close> is the
  rounding of an exact result with overflow to an infinity.
\<close>

datatype double = NotANumber | Infinity | MinusInfinity | Finite number

definition round_double :: "real \<Rightarrow> double" where
  "round_double x =
     (if MAX_VALUE < fl x then Infinity
      else if fl x < - MAX_VALUE then MinusInfinity
      else Finite (fl x))"

text \<open>
  The operators \<^verbatim>\<open>+\<close>, unary and binary \<^verbatim>\<open>-\<close>, \<^verbatim>\<open>*\<close> and \<^verbatim>\<open>>\<close> of JavaScript on
  numbers. In each \<^theory_text>\<open>fun\<close> an earlier equation wins.
\<close>

fun js_add :: "double \<Rightarrow> double \<Rightarrow> double" where
  "js_add (Finite a) (Finite b) = round_double (a + b)"
| "js_add NotANumber y = NotANumber"
| "js_add x NotANumber = NotANumber"
| "js_add Infinity MinusInfinity = NotANumber"
| "js_add MinusInfinity Infinity = NotANumber"
| "js_add Infinity y = Infinity"
| "js_add x Infinity = Infinity"
| "js_add MinusInfinity y = MinusInfinity"
| "js_add x MinusInfinity = MinusInfinity"

fun js_neg :: "double \<Rightarrow> double" where
  "js_neg (Finite a) = Finite (- a)"
| "js_neg Infinity = MinusInfinity"
| "js_neg MinusInfinity = Infinity"
| "js_neg NotANumber = NotANumber"

definition js_sub :: "double \<Rightarrow> double \<Rightarrow> double" where
  "js_sub x y = js_add x (js_neg y)"

fun js_sign :: "double \<Rightarrow> int" where
  "js_sign (Finite a) = (if a < 0 then - 1 else if a = 0 then 0 else 1)"
| "js_sign Infinity = 1"
| "js_sign MinusInfinity = - 1"
| "js_sign NotANumber = 0"

fun js_mul :: "double \<Rightarrow> double \<Rightarrow> double" where
  "js_mul (Finite a) (Finite b) = round_double (a * b)"
| "js_mul NotANumber y = NotANumber"
| "js_mul x NotANumber = NotANumber"
| "js_mul x y =
     (if js_sign x * js_sign y = 0 then NotANumber
      else if js_sign x * js_sign y = 1 then Infinity
      else MinusInfinity)"

fun js_gt :: "double \<Rightarrow> double \<Rightarrow> bool" where
  "js_gt (Finite a) (Finite b) = (a > b)"
| "js_gt NotANumber y = False"
| "js_gt x NotANumber = False"
| "js_gt MinusInfinity y = False"
| "js_gt x Infinity = False"
| "js_gt Infinity y = True"
| "js_gt x MinusInfinity = True"

text \<open>
  Division by \<^verbatim>\<open>validAmounts.length\<close>. The code divides only when the length is not
  zero; a length is an integer far below \<open>2 ^ 53\<close> and so a double itself.
\<close>

fun js_div_count :: "double \<Rightarrow> nat \<Rightarrow> double" where
  "js_div_count (Finite a) n = round_double (a / real n)"
| "js_div_count x n = x"

definition isNaN :: "double \<Rightarrow> bool" where
  "isNaN x = (x = NotANumber)"

text \<open>
  \<^verbatim>\<open>identifyAnomalies\<close>. ECMAScript leaves the results of \<^verbatim>\<open>Math.pow\<close> and
  \<^verbatim>\<open>Math.sqrt\<close> to the implementation (an approximation of the exact result), so
  both are parameters: \<open>Math_pow2 x\<close> stands for \<^verbatim>\<open>Math.pow(x, 2)\<close> and
  \<open>Math_sqrt x\<close> for \<^verbatim>\<open>Math.sqrt(x)\<close>. The two \<^verbatim>\<open>reduce\<close> calls are left folds
  from 0.
\<close>

definition identifyAnomalies ::
  "(double \<Rightarrow> double) \<Rightarrow> (double \<Rightarrow> double) \<Rightarrow> double list \<Rightarrow> bool list" where
  "identifyAnomalies Math_pow2 Math_sqrt amounts =
     (if length amounts = 0 then []
      else
        (let validAmounts = filter (\<lambda>amount. \<not> isNaN amount) amounts in
         if length validAmounts = 0 then map (\<lambda>_. False) amounts
         else
           (let mean = js_div_count
                         (foldl (\<lambda>sum amount. js_add sum amount) (Finite 0) validAmounts)
                         (length validAmounts);
                stdDev = Math_sqrt
                           (js_div_count
                              (foldl (\<lambda>sum amount. js_add sum (Math_pow2 (js_sub amount mean)))
                                 (Finite 0) validAmounts)
                              (length validAmounts));
                threshold = js_add mean (js_mul (Finite 2) stdDev)
            in map (\<lambda>amount. js_gt amount threshold) amounts)))"

text \<open>
  The threshold as the specification words it, for comparison with the code above: the
  numeric subset is the list without its NaN entries; the mean is the sum of a list
  divided by its length; the population standard deviation is the square root of the
  mean of the squared differences from the mean; the threshold is the mean plus twice
  the standard deviation. Sums run from the left, every operation is the one of double
  arithmetic.
\<close>

fun numeric_subset :: "double list \<Rightarrow> double list" where
  "numeric_subset [] = []"
| "numeric_subset (NotANumber # xs) = numeric_subset xs"
| "numeric_subset (x # xs) = x # numeric_subset xs"

fun sum_from :: "double \<Rightarrow> double list \<Rightarrow> double" where
  "sum_from acc [] = acc"
| "sum_from acc (x # xs) = sum_from (js_add acc x) xs"

definition spec_mean :: "double list \<Rightarrow> double" where
  "spec_mean xs = js_div_count (sum_from (Finite 0) xs) (length xs)"

definition spec_stddev ::
  "(double \<Rightarrow> double) \<Rightarrow> (double \<Rightarrow> double) \<Rightarrow> double list \<Rightarrow> double" where
  "spec_stddev Math_pow2 Math_sqrt xs =
     Math_sqrt
       (js_div_count
          (sum_from (Finite 0) (map (\<lambda>x. Math_pow2 (js_sub x (spec_mean xs))) xs))
          (length xs))"

definition spec_threshold ::
  "(double \<Rightarrow> double) \<Rightarrow> (double \<Rightarrow> double) \<Rightarrow> double list \<Rightarrow> double" where
  "spec_threshold Math_pow2 Math_sqrt xs =
     js_add (spec_mean xs) (js_mul (Finite 2) (spec_stddev Math_pow2 Math_sqrt xs))"

text \<open>
  The correctly rounded square and square root, which is what the common engines
  compute; they serve to run the code on examples.
\<close>

definition square_rounded :: "double \<Rightarrow> double" where
  "square_rounded x = js_mul x x"

definition sqrt_rounded :: "double \<Rightarrow> double" where
  "sqrt_rounded x =
     (case x of
        Finite a \<Rightarrow> (if a < 0 then NotANumber else round_double (sqrt a))
      | Infinity \<Rightarrow> Infinity
      | _ \<Rightarrow> NotANumber)"

section \<open>Example messages\<close>

text \<open>The messages of the scenarios in section 8 of the specification, and two more.\<close>

definition tx_amount :: "number \<Rightarrow> Transaction" where
  "tx_amount a = \<lparr>transaction_id = None, Time = None, Amount = Some a, Class = None, V1 = None\<rparr>"

definition flags :: "number \<Rightarrow> number \<Rightarrow> number \<Rightarrow> Prediction" where
  "flags l r x = \<lparr>logistic = Some l, random_forest = Some r, xgboost = Some x\<rparr>"

definition msg_status :: Data where
  "msg_status =
     \<lparr>data_message = Some (JStr ''connected''), data_predictions = None,
      data_prediction = None, data_transaction = None\<rparr>"

definition msg_predictions :: Data where
  "msg_predictions =
     \<lparr>data_message = None, data_predictions = Some (flags 0 0 1),
      data_prediction = None, data_transaction = Some (tx_amount 50)\<rparr>"

definition msg_prediction :: Data where
  "msg_prediction =
     \<lparr>data_message = None, data_predictions = None,
      data_prediction = Some (flags 0 0 0), data_transaction = Some (tx_amount 200)\<rparr>"

definition msg_bare :: Data where
  "msg_bare =
     \<lparr>data_message = None, data_predictions = None,
      data_prediction = Some (flags 1 0 0), data_transaction = None\<rparr>"

text \<open>
  A transaction over 2.69, that is over the double nearest to it, and a state whose
  volume stands at \<open>2 ^ 53\<close>.
\<close>

definition msg_cents :: Data where
  "msg_cents =
     \<lparr>data_message = None, data_predictions = Some (flags 0 0 0),
      data_prediction = None,
      data_transaction = Some (tx_amount (6057341498813317 / 2251799813685248))\<rparr>"

definition msg_one :: Data where
  "msg_one =
     \<lparr>data_message = None, data_predictions = None,
      data_prediction = Some (flags 0 0 0), data_transaction = Some (tx_amount 1)\<rparr>"

definition state_2_53 :: State where
  "state_2_53 =
     \<lparr>predictions = [], transactions = [],
      stats = \<lparr>total' = 0, flagged = 0, recentVolume = 9007199254740992\<rparr>\<rparr>"

section \<open>Lemmas about rounding\<close>

text \<open>
  Rounding to the nearest integer is monotone and leaves integers alone; from this,
  \<open>fl\<close> is monotone, idempotent and odd, and it leaves every integer up to
  \<open>2 ^ 53\<close> alone.
\<close>

lemma rne_of_int: "rne (of_int n) = n"
  by (simp add: rne_def)

lemma rne_between: "\<lfloor>y\<rfloor> \<le> rne y \<and> rne y \<le> \<lfloor>y\<rfloor> + 1"
  by (simp add: rne_def Let_def)

lemma rne_mono: "x \<le> y \<Longrightarrow> rne x \<le> rne y"
proof -
  assume xy: "x \<le> y"
  then have fl: "\<lfloor>x\<rfloor> \<le> \<lfloor>y\<rfloor>" by (rule floor_mono)
  show ?thesis
  proof (cases "\<lfloor>x\<rfloor> = \<lfloor>y\<rfloor>")
    case True
    with xy show ?thesis by (auto simp add: rne_def Let_def)
  next
    case False
    with fl have "\<lfloor>x\<rfloor> + 1 \<le> \<lfloor>y\<rfloor>" by simp
    with rne_between [of x] rne_between [of y] show ?thesis by linarith
  qed
qed

lemma rne_ge: "of_int n \<le> y \<Longrightarrow> n \<le> rne y"
  using rne_mono [of "of_int n" y] by (simp add: rne_of_int)

lemma rne_le: "y \<le> of_int n \<Longrightarrow> rne y \<le> n"
  using rne_mono [of y "of_int n"] by (simp add: rne_of_int)

lemma shift_mono: "0 \<le> y \<Longrightarrow> y \<le> y' \<Longrightarrow> shift y \<le> shift y'"
proof -
  assume "0 \<le> y" "y \<le> y'"
  then have "\<lfloor>y\<rfloor> \<le> \<lfloor>y'\<rfloor>" by (simp add: floor_mono)
  then have "bitlen \<lfloor>y\<rfloor> \<le> bitlen \<lfloor>y'\<rfloor>"
    by (simp add: bitlen_def floorlog_mono)
  then show ?thesis by (simp add: shift_def)
qed

lemma below_pow: "0 \<le> y \<Longrightarrow> y < 2 ^ (53 + shift y)"
proof -
  assume y: "0 \<le> y"
  have "bitlen \<lfloor>y\<rfloor> \<le> int (53 + shift y)" by (simp add: shift_def)
  moreover have "nat (int (53 + shift y)) = 53 + shift y" by (rule nat_int)
  ultimately have "\<lfloor>y\<rfloor> < 2 ^ (53 + shift y)"
    unfolding bitlen_le_iff_power by simp
  then have "y < of_int (2 ^ (53 + shift y))" by (simp only: floor_less_iff)
  then show ?thesis by simp
qed

lemma above_pow: "0 < shift y \<Longrightarrow> 2 ^ (52 + shift y) \<le> y"
proof -
  assume s: "0 < shift y"
  then have "int (53 + shift y) \<le> bitlen \<lfloor>y\<rfloor>" by (simp add: shift_def)
  moreover have "nat (int (53 + shift y)) - 1 = 52 + shift y" by simp
  ultimately have "2 ^ (52 + shift y) \<le> \<lfloor>y\<rfloor>"
    unfolding bitlen_ge_iff_power by simp
  then have "of_int (2 ^ (52 + shift y)) \<le> y" by (simp only: le_floor_iff)
  then show ?thesis by simp
qed

lemma mantissa_le: "0 \<le> y \<Longrightarrow> rne (y / 2 ^ shift y) \<le> 2 ^ 53"
proof -
  assume "0 \<le> y"
  then have "y < 2 ^ (53 + shift y)" by (rule below_pow)
  then have "y / 2 ^ shift y < 2 ^ 53" by (simp add: power_add field_simps)
  then have "y / 2 ^ shift y \<le> of_int (2 ^ 53)" by simp
  then show ?thesis by (rule rne_le)
qed

lemma mantissa_ge: "0 < shift y \<Longrightarrow> 2 ^ 52 \<le> rne (y / 2 ^ shift y)"
proof -
  assume "0 < shift y"
  then have "2 ^ (52 + shift y) \<le> y" by (rule above_pow)
  then have "2 ^ 52 \<le> y / 2 ^ shift y" by (simp add: power_add field_simps)
  then have "of_int (2 ^ 52) \<le> y / 2 ^ shift y" by simp
  then show ?thesis by (rule rne_ge)
qed

lemma mantissa_nonneg: "0 \<le> y \<Longrightarrow> 0 \<le> rne (y / 2 ^ shift y)"
  using rne_ge [of 0 "y / 2 ^ shift y"] by simp

lemma round53_nonneg: "0 \<le> y \<Longrightarrow> 0 \<le> round53 y"
  by (simp add: round53_def mantissa_nonneg)

lemma round53_mono:
  assumes "0 \<le> y" and "y \<le> y'"
  shows "round53 y \<le> round53 y'"
proof (cases "shift y = shift y'")
  case True
  from assms have "y / 2 ^ shift y' \<le> y' / 2 ^ shift y'" by (simp add: divide_right_mono)
  then have "rne (y / 2 ^ shift y') \<le> rne (y' / 2 ^ shift y')" by (rule rne_mono)
  with True show ?thesis by (simp add: round53_def)
next
  case False
  with shift_mono [OF assms] have lt: "shift y < shift y'" by simp
  then have pos: "0 < shift y'" by simp
  have "round53 y \<le> 2 ^ 53 * 2 ^ shift y"
    using mantissa_le [OF assms(1)] by (simp add: round53_def)
  also have "\<dots> = 2 ^ (53 + shift y)" by (simp add: power_add)
  also from lt have "\<dots> \<le> (2::real) ^ (52 + shift y')"
    by (intro power_increasing) simp_all
  also have "\<dots> = 2 ^ 52 * 2 ^ shift y'" by (simp add: power_add)
  also have "\<dots> \<le> round53 y'"
    using mantissa_ge [OF pos] by (simp add: round53_def)
  finally show ?thesis .
qed

lemma shift_of_int:
  assumes "0 < m"
  shows "shift (of_int m * 2 ^ k) = nat (bitlen m + int k - 53)"
proof -
  have "real_of_int m * 2 ^ k = of_int (m * 2 ^ k)" by simp
  then have "\<lfloor>real_of_int m * 2 ^ k\<rfloor> = m * 2 ^ k" by (simp only: floor_of_int)
  with assms show ?thesis by (simp add: shift_def)
qed

lemma round53_fixed:
  assumes "0 \<le> m" and "m \<le> 2 ^ 53" and "m = 0 \<or> k = 0 \<or> 2 ^ 52 \<le> m"
  shows "round53 (of_int m * 2 ^ k) = of_int m * 2 ^ k"
proof (cases "m = 0")
  case True
  then show ?thesis by (simp add: round53_def shift_def rne_def)
next
  case False
  with assms(1) have pos: "0 < m" by simp
  show ?thesis
  proof (cases "m = 2 ^ 53")
    case True
    have "bitlen m = 54" unfolding True using bitlen_twopow_add_eq [of 0 53] by simp
    with shift_of_int [OF pos, of k] have sh: "shift (of_int m * 2 ^ k) = Suc k" by simp
    have "real_of_int m * 2 ^ k / 2 ^ Suc k = of_int (2 ^ 52)" unfolding True by simp
    then have "rne (real_of_int m * 2 ^ k / 2 ^ Suc k) = 2 ^ 52" by (simp only: rne_of_int)
    with sh show ?thesis unfolding True by (simp add: round53_def)
  next
    case False
    with assms(2) have lt: "m < 2 ^ 53" by simp
    then have up: "bitlen m \<le> 53" unfolding bitlen_le_iff_power by simp
    have sh: "shift (of_int m * 2 ^ k) = k"
    proof (cases "k = 0")
      case True
      with up shift_of_int [OF pos, of k] show ?thesis by simp
    next
      case False
      with assms(3) pos have "2 ^ 52 \<le> m" by simp
      then have "53 \<le> bitlen m" unfolding bitlen_ge_iff_power by simp
      with up shift_of_int [OF pos, of k] show ?thesis by simp
    qed
    have "rne (real_of_int m * 2 ^ k / 2 ^ k) = m" by (simp add: rne_of_int)
    with sh show ?thesis by (simp add: round53_def)
  qed
qed

lemma round53_idem:
  assumes "0 \<le> y"
  shows "round53 (round53 y) = round53 y"
proof -
  have "0 < shift y \<longrightarrow> 2 ^ 52 \<le> rne (y / 2 ^ shift y)" using mantissa_ge by blast
  then have "rne (y / 2 ^ shift y) = 0 \<or> shift y = 0 \<or> 2 ^ 52 \<le> rne (y / 2 ^ shift y)"
    by auto
  from round53_fixed [OF mantissa_nonneg [OF assms] mantissa_le [OF assms] this]
  show ?thesis by (simp add: round53_def)
qed

lemma fl_zero: "fl 0 = 0"
  by (simp add: fl_def)

lemma fl_minus: "fl (- x) = - fl x"
  by (simp add: fl_def sgn_minus)

lemma fl_pos: "0 < x \<Longrightarrow> fl x = round53 (x * 2 ^ 1074) / 2 ^ 1074"
  by (simp add: fl_def)

lemma fl_nonneg: "0 \<le> x \<Longrightarrow> 0 \<le> fl x"
  by (cases "x = 0") (simp_all add: fl_zero fl_pos round53_nonneg)

lemma fl_mono_pos:
  assumes "0 < x" and "x \<le> y"
  shows "fl x \<le> fl y"
proof -
  from assms have y: "0 < y" by simp
  from assms have "round53 (x * 2 ^ 1074) \<le> round53 (y * 2 ^ 1074)"
    by (intro round53_mono) simp_all
  with assms(1) y show ?thesis by (simp add: fl_pos divide_right_mono)
qed

lemma fl_mono: "x \<le> y \<Longrightarrow> fl x \<le> fl y"
proof -
  assume xy: "x \<le> y"
  consider "0 < x" | "x \<le> 0" "0 \<le> y" | "y < 0" by linarith
  then show ?thesis
  proof cases
    case 1
    then show ?thesis using xy by (rule fl_mono_pos)
  next
    case 2
    then have "fl x \<le> 0" using fl_nonneg [of "- x"] by (simp add: fl_minus)
    moreover from 2 have "0 \<le> fl y" by (simp add: fl_nonneg)
    ultimately show ?thesis by simp
  next
    case 3
    with xy have "0 < - y" "- y \<le> - x" by simp_all
    then have "fl (- y) \<le> fl (- x)" by (rule fl_mono_pos)
    then show ?thesis by (simp add: fl_minus)
  qed
qed

lemma fl_idem_pos:
  assumes "0 < x"
  shows "fl (fl x) = fl x"
proof (cases "round53 (x * 2 ^ 1074) = 0")
  case True
  with assms show ?thesis by (simp add: fl_pos fl_zero)
next
  case False
  with round53_nonneg [of "x * 2 ^ 1074"] assms have "0 < round53 (x * 2 ^ 1074)" by simp
  then have "0 < fl x" using assms by (simp add: fl_pos)
  then have "fl (fl x) = round53 (fl x * 2 ^ 1074) / 2 ^ 1074" by (rule fl_pos)
  also have "fl x * 2 ^ 1074 = round53 (x * 2 ^ 1074)" using assms by (simp add: fl_pos)
  also have "round53 (round53 (x * 2 ^ 1074)) = round53 (x * 2 ^ 1074)"
    using assms by (intro round53_idem) simp
  finally show ?thesis using assms by (simp add: fl_pos)
qed

lemma fl_idem: "fl (fl x) = fl x"
proof -
  consider "0 < x" | "x = 0" | "x < 0" by linarith
  then show ?thesis
  proof cases
    case 1 then show ?thesis by (rule fl_idem_pos)
  next
    case 2 then show ?thesis by (simp add: fl_zero)
  next
    case 3
    then have "fl (fl (- x)) = fl (- x)" by (intro fl_idem_pos) simp
    then show ?thesis by (simp add: fl_minus)
  qed
qed

lemma round53_dyadic:
  assumes "0 \<le> m" and "m \<le> 2 ^ 53"
  shows "round53 (of_int m * 2 ^ j) = of_int m * 2 ^ j"
proof (cases "m = 0 \<or> m = 2 ^ 53")
  case True
  with round53_fixed [of m j] show ?thesis by auto
next
  case False
  with assms have pos: "0 < m" and lt: "m < 2 ^ 53" by simp_all
  define b where "b = nat (bitlen m)"
  from pos have b1: "1 \<le> bitlen m" using bitlen_ge_iff_power [of 1 m] by simp
  from lt have b53: "bitlen m \<le> 53" unfolding bitlen_le_iff_power by simp
  from b1 b53 have b: "1 \<le> b" "b \<le> 53" "bitlen m = int b" by (simp_all add: b_def)
  from bitlen_bounds [OF pos] b have lo: "2 ^ (b - 1) \<le> m" and hi: "m < 2 ^ b"
    by (simp_all add: nat_diff_distrib)
  show ?thesis
  proof (cases "53 - b \<le> j")
    case True
    define k where "k = j - (53 - b)"
    from True have j: "j = (53 - b) + k" by (simp add: k_def)
    have "(2::int) ^ 52 = 2 ^ (b - 1) * 2 ^ (53 - b)"
      using b by (simp add: power_add [symmetric])
    also have "\<dots> \<le> m * 2 ^ (53 - b)" using lo by (intro mult_right_mono) simp_all
    finally have ge: "2 ^ 52 \<le> m * 2 ^ (53 - b)" .
    have "m * 2 ^ (53 - b) \<le> 2 ^ b * 2 ^ (53 - b)"
      using hi by (intro mult_right_mono) simp_all
    also have "\<dots> = (2::int) ^ 53" using b by (simp add: power_add [symmetric])
    finally have le: "m * 2 ^ (53 - b) \<le> 2 ^ 53" .
    from pos have nn: "0 \<le> m * 2 ^ (53 - b)" by simp
    from round53_fixed [OF nn le, of k] ge
    have "round53 (of_int (m * 2 ^ (53 - b)) * 2 ^ k) = of_int (m * 2 ^ (53 - b)) * 2 ^ k"
      by simp
    then show ?thesis by (simp add: j power_add mult.assoc)
  next
    case False
    then have jb: "j + b \<le> 53" by simp
    have "m * 2 ^ j \<le> 2 ^ b * 2 ^ j" using hi by (intro mult_right_mono) simp_all
    also have "\<dots> = 2 ^ (j + b)" by (simp add: power_add mult.commute)
    also have "\<dots> \<le> (2::int) ^ 53" using jb by (intro power_increasing) simp_all
    finally have le: "m * 2 ^ j \<le> 2 ^ 53" by simp
    from pos have nn: "0 \<le> m * 2 ^ j" by simp
    from round53_fixed [OF nn le, of 0] show ?thesis by simp
  qed
qed

lemma fl_of_int:
  assumes "\<bar>n\<bar> \<le> 2 ^ 53"
  shows "fl (of_int n) = of_int n"
proof -
  have pos: "fl (of_int m) = of_int m" if "0 < m" "m \<le> 2 ^ 53" for m :: int
  proof -
    from that have "round53 (of_int m * 2 ^ 1074) = of_int m * 2 ^ 1074"
      by (intro round53_dyadic) simp_all
    with that(1) show ?thesis by (simp add: fl_pos)
  qed
  consider "0 < n" | "n = 0" | "n < 0" by linarith
  then show ?thesis
  proof cases
    case 1 with assms show ?thesis by (intro pos) simp_all
  next
    case 2 then show ?thesis by (simp add: fl_zero)
  next
    case 3
    with assms have "fl (of_int (- n)) = of_int (- n)" by (intro pos) simp_all
    then show ?thesis by (simp add: fl_minus)
  qed
qed

lemma rne_eqI: "\<bar>y - of_int n\<bar> < 1 / 2 \<Longrightarrow> rne y = n"
proof -
  assume a: "\<bar>y - of_int n\<bar> < 1 / 2"
  show ?thesis
  proof (cases "of_int n \<le> y")
    case True
    with a have "\<lfloor>y\<rfloor> = n" by (intro floor_unique) linarith+
    with a True show ?thesis by (simp add: rne_def)
  next
    case False
    with a have "\<lfloor>y\<rfloor> = n - 1" by (intro floor_unique) (simp, linarith+)
    with a False show ?thesis by (simp add: rne_def)
  qed
qed

lemma rne_tie: "y = of_int n + 1 / 2 \<Longrightarrow> rne y = (if even n then n else n + 1)"
proof -
  assume y: "y = of_int n + 1 / 2"
  then have "\<lfloor>y\<rfloor> = n" by (intro floor_unique) simp_all
  with y show ?thesis by (simp add: rne_def)
qed

lemma shift_eqI:
  assumes "2 ^ (52 + k) \<le> y" and "y < 2 ^ (53 + k)"
  shows "shift y = k"
proof -
  from assms(1) have "of_int (2 ^ (52 + k)) \<le> y" by simp
  then have "2 ^ (52 + k) \<le> \<lfloor>y\<rfloor>" by (simp only: le_floor_iff)
  moreover have "nat (int (53 + k)) - 1 = 52 + k" by simp
  ultimately have ge: "int (53 + k) \<le> bitlen \<lfloor>y\<rfloor>" unfolding bitlen_ge_iff_power by simp
  from assms(2) have "y < of_int (2 ^ (53 + k))" by simp
  then have "\<lfloor>y\<rfloor> < 2 ^ (53 + k)" by (simp only: floor_less_iff)
  moreover have "nat (int (53 + k)) = 53 + k" by (rule nat_int)
  ultimately have "bitlen \<lfloor>y\<rfloor> \<le> int (53 + k)" unfolding bitlen_le_iff_power by simp
  with ge show ?thesis by (simp add: shift_def)
qed

lemma fl_eqI:
  assumes "0 < x" and "2 ^ (52 + k) \<le> x * 2 ^ 1074" and "x * 2 ^ 1074 < 2 ^ (53 + k)"
    and "rne (x * 2 ^ 1074 / 2 ^ k) = m"
  shows "fl x = of_int m * 2 ^ k / 2 ^ 1074"
  using assms shift_eqI [OF assms(2,3)] by (simp add: fl_pos round53_def)

lemma rne_near: "near y m \<Longrightarrow> rne y = m"
proof -
  assume a: "near y m"
  show ?thesis
  proof (cases "\<bar>y - of_int m\<bar> < 1 / 2")
    case True
    then show ?thesis by (rule rne_eqI)
  next
    case False
    with a have e: "\<bar>y - of_int m\<bar> = 1 / 2" and ev: "even m" by (simp_all add: near_def)
    show ?thesis
    proof (cases "of_int m \<le> y")
      case True
      with e have "y = of_int m + 1 / 2" by simp
      from rne_tie [OF this] ev show ?thesis by simp
    next
      case False
      with e have "y = of_int (m - 1) + 1 / 2" by simp
      from rne_tie [OF this] ev show ?thesis by simp
    qed
  qed
qed

lemma fl_eval:
  assumes "0 < x" and "2 ^ (52 + k) \<le> x * 2 ^ 1074" and "x * 2 ^ 1074 < 2 ^ (53 + k)"
    and "near (x * 2 ^ 1074 / 2 ^ k) m"
  shows "fl x = of_int m * 2 ^ k / 2 ^ 1074"
  using fl_eqI [OF assms(1-3) rne_near [OF assms(4)]] .

lemma round_double_pos:
  assumes "0 < x" and "2 ^ (52 + k) \<le> x * 2 ^ 1074" and "x * 2 ^ 1074 < 2 ^ (53 + k)"
    and "near (x * 2 ^ 1074 / 2 ^ k) m"
    and "r = of_int m * 2 ^ k / 2 ^ 1074" and "0 \<le> r" and "r \<le> MAX_VALUE"
  shows "round_double x = Finite r"
  using fl_eval [OF assms(1-4)] assms(5-7) by (simp add: round_double_def)

lemma round_double_neg:
  assumes "0 < - x" and "2 ^ (52 + k) \<le> - x * 2 ^ 1074" and "- x * 2 ^ 1074 < 2 ^ (53 + k)"
    and "near (- x * 2 ^ 1074 / 2 ^ k) m"
    and "r = - (of_int m * 2 ^ k / 2 ^ 1074)" and "r \<le> 0" and "- MAX_VALUE \<le> r"
  shows "round_double x = Finite r"
proof -
  from fl_eval [OF assms(1-4)] have "fl x = r" using assms(5) fl_minus [of x] by simp
  with assms(6,7) show ?thesis by (simp add: round_double_def MAX_VALUE_def)
qed

lemma round_double_of_int: "\<bar>n\<bar> \<le> 2 ^ 53 \<Longrightarrow> round_double (of_int n) = Finite (of_int n)"
proof -
  assume n: "\<bar>n\<bar> \<le> 2 ^ 53"
  then have "\<bar>real_of_int n\<bar> \<le> 2 ^ 53" by (metis of_int_abs of_int_le_iff of_int_numeral of_int_power)
  then have "\<bar>real_of_int n\<bar> \<le> MAX_VALUE" by (simp add: MAX_VALUE_def)
  with fl_of_int [OF n] show ?thesis by (auto simp add: round_double_def)
qed

lemma round_double_numeral:
  "(numeral w :: int) \<le> 2 ^ 53 \<Longrightarrow> round_double (numeral w) = Finite (numeral w)"
  using round_double_of_int [of "numeral w"] by simp

lemma round_double_neg_numeral:
  "(numeral w :: int) \<le> 2 ^ 53 \<Longrightarrow> round_double (- numeral w) = Finite (- numeral w)"
  using round_double_of_int [of "- numeral w"] by simp

lemma round_double_0: "round_double 0 = Finite 0"
  using round_double_of_int [of 0] by simp

lemma round_double_1: "round_double 1 = Finite 1"
  using round_double_of_int [of 1] by simp

section \<open>Lemmas about the message handler\<close>

lemma jsnum_or0_times10:
  "jsnum_or0 (times10 a) = (case a of None \<Rightarrow> 0 | Some x \<Rightarrow> fl (x * 10))"
  by (cases a) simp_all

lemma amount_or0_eq: "amount_or0 a = (case a of None \<Rightarrow> 0 | Some x \<Rightarrow> x)"
  by (cases a) simp_all

lemma dispatch_shape1:
  "\<not> truthy (data_message data) \<Longrightarrow> data_predictions data = Some ps \<Longrightarrow>
   data_transaction data = Some tx \<Longrightarrow>
   dispatch data s =
     s\<lparr>predictions := predictions s @ [ps], transactions := transactions s @ [tx],
       stats := updateStats_predictions ps tx (stats s)\<rparr>"
  by (simp add: dispatch_def)

lemma dispatch_shape2_tx:
  "\<not> truthy (data_message data) \<Longrightarrow> data_predictions data = None \<Longrightarrow>
   data_prediction data = Some p \<Longrightarrow> data_transaction data = Some tx \<Longrightarrow>
   dispatch data s =
     s\<lparr>predictions := predictions s @ [p], transactions := transactions s @ [tx],
       stats := updateStats_prediction p tx (stats s)\<rparr>"
  by (simp add: dispatch_def Let_def)

lemma dispatch_shape2_bare:
  "\<not> truthy (data_message data) \<Longrightarrow>
   data_prediction data = Some p \<Longrightarrow> data_transaction data = None \<Longrightarrow>
   dispatch data s = s\<lparr>predictions := predictions s @ [p]\<rparr>"
  by (simp add: dispatch_def Let_def split: option.splits)

lemma dispatch_neither:
  "\<not> shape1 data \<Longrightarrow> \<not> shape2 data \<Longrightarrow> dispatch data s = s"
  by (auto simp add: dispatch_def shape1_def shape2_def Let_def split: option.splits)

lemma deliver_all_Nil: "deliver_all s [] = s"
  by (simp add: deliver_all_def)

lemma deliver_all_Cons: "deliver_all s (ev # evs) = deliver_all (deliver s ev) evs"
  by (simp add: deliver_all_def)

lemma deliver_all_append: "deliver_all s (evs @ evs') = deliver_all (deliver_all s evs) evs'"
  by (simp add: deliver_all_def)






lemma fl_add_nonneg:
  assumes "fl r = r" and "0 \<le> x"
  shows "r \<le> fl (r + x)"
proof -
  from assms(2) have "fl r \<le> fl (r + x)" by (intro fl_mono) simp
  with assms(1) show ?thesis by simp
qed

lemma updateStats_predictions_step:
  assumes "fl (recentVolume st) = recentVolume st"
  shows "total' (updateStats_predictions ps tx st) = total' st + 1 \<and>
         flagged st \<le> flagged (updateStats_predictions ps tx st) \<and>
         flagged (updateStats_predictions ps tx st) \<le> flagged st + 1 \<and>
         fl (recentVolume (updateStats_predictions ps tx st)) =
           recentVolume (updateStats_predictions ps tx st) \<and>
         ((case Amount tx of Some a \<Rightarrow> 0 \<le> a | None \<Rightarrow> True) \<longrightarrow>
            recentVolume st \<le> recentVolume (updateStats_predictions ps tx st))"
proof -
  have "recentVolume st \<le> fl (recentVolume st + fl (a * 10))" if "0 \<le> a" for a :: real
  proof -
    from that have "0 \<le> fl (a * 10)" by (intro fl_nonneg) simp
    with assms show ?thesis by (rule fl_add_nonneg)
  qed
  moreover have "recentVolume st \<le> fl (recentVolume st + 0)" using assms by simp
  ultimately show ?thesis
    by (simp add: updateStats_predictions_def jsnum_or0_times10 fl_idem split: option.splits)
qed

lemma updateStats_prediction_step:
  assumes "fl (recentVolume st) = recentVolume st"
  shows "total' (updateStats_prediction p tx st) = total' st + 1 \<and>
         flagged st \<le> flagged (updateStats_prediction p tx st) \<and>
         flagged (updateStats_prediction p tx st) \<le> flagged st + 1 \<and>
         fl (recentVolume (updateStats_prediction p tx st)) =
           recentVolume (updateStats_prediction p tx st) \<and>
         ((case Amount tx of Some a \<Rightarrow> 0 \<le> a | None \<Rightarrow> True) \<longrightarrow>
            recentVolume st \<le> recentVolume (updateStats_prediction p tx st))"
proof -
  have "recentVolume st \<le> fl (recentVolume st + a)" if "0 \<le> a" for a :: real
    using assms that by (rule fl_add_nonneg)
  moreover have "recentVolume st \<le> fl (recentVolume st + 0)" using assms by simp
  ultimately show ?thesis
    by (simp add: updateStats_prediction_def amount_or0_eq fl_idem split: option.splits)
qed

lemma deliver_stats_cases:
  "stats (deliver s ev) = stats s \<or>
   (\<exists>data ps tx. ev = JsonObject data \<and> data_transaction data = Some tx \<and>
      stats (deliver s ev) = updateStats_predictions ps tx (stats s)) \<or>
   (\<exists>data p tx. ev = JsonObject data \<and> data_transaction data = Some tx \<and>
      stats (deliver s ev) = updateStats_prediction p tx (stats s))"
  by (cases ev) (auto simp add: deliver_def dispatch_def Let_def split: option.splits)

text \<open>
  One delivered frame, and then any number of them: the counters grow as stated, and
  \<^verbatim>\<open>recentVolume\<close> holds a double after the frame if it did before. It does so in
  the initial state, hence in every state reached from it.
\<close>

lemma deliver_stats_step:
  assumes "fl (recentVolume (stats s)) = recentVolume (stats s)"
  shows "total' (stats s) \<le> total' (stats (deliver s ev)) \<and>
         flagged (stats s) \<le> flagged (stats (deliver s ev)) \<and>
         flagged (stats (deliver s ev)) - flagged (stats s)
           \<le> total' (stats (deliver s ev)) - total' (stats s) \<and>
         fl (recentVolume (stats (deliver s ev))) = recentVolume (stats (deliver s ev)) \<and>
         (amount_nonneg ev \<longrightarrow> recentVolume (stats s) \<le> recentVolume (stats (deliver s ev)))"
proof -
  from deliver_stats_cases [of s ev]
  consider "stats (deliver s ev) = stats s"
    | data ps tx where "ev = JsonObject data" "data_transaction data = Some tx"
        "stats (deliver s ev) = updateStats_predictions ps tx (stats s)"
    | data p tx where "ev = JsonObject data" "data_transaction data = Some tx"
        "stats (deliver s ev) = updateStats_prediction p tx (stats s)"
    by blast
  then show ?thesis
  proof cases
    case 1
    with assms show ?thesis by simp
  next
    case 2
    from updateStats_predictions_step [OF assms, of ps tx] 2 show ?thesis
      by (simp add: amount_nonneg_def)
  next
    case 3
    from updateStats_prediction_step [OF assms, of p tx] 3 show ?thesis
      by (simp add: amount_nonneg_def)
  qed
qed

lemma deliver_all_stats:
  assumes "fl (recentVolume (stats s)) = recentVolume (stats s)"
  shows "total' (stats s) \<le> total' (stats (deliver_all s evs)) \<and>
         flagged (stats s) \<le> flagged (stats (deliver_all s evs)) \<and>
         flagged (stats (deliver_all s evs)) - flagged (stats s)
           \<le> total' (stats (deliver_all s evs)) - total' (stats s) \<and>
         fl (recentVolume (stats (deliver_all s evs))) =
           recentVolume (stats (deliver_all s evs)) \<and>
         ((\<forall>ev \<in> set evs. amount_nonneg ev) \<longrightarrow>
            recentVolume (stats s) \<le> recentVolume (stats (deliver_all s evs)))"
  using assms
proof (induction evs arbitrary: s)
  case Nil
  then show ?case by (simp add: deliver_all_Nil)
next
  case (Cons ev evs)
  from deliver_stats_step [OF Cons.prems, of ev]
  have step: "total' (stats s) \<le> total' (stats (deliver s ev))"
    "flagged (stats s) \<le> flagged (stats (deliver s ev))"
    "flagged (stats (deliver s ev)) - flagged (stats s)
       \<le> total' (stats (deliver s ev)) - total' (stats s)"
    "fl (recentVolume (stats (deliver s ev))) = recentVolume (stats (deliver s ev))"
    "amount_nonneg ev \<longrightarrow> recentVolume (stats s) \<le> recentVolume (stats (deliver s ev))"
    by simp_all
  from Cons.IH [OF step(4)] step show ?case
    by (auto simp add: deliver_all_Cons)
qed

text \<open>Values of \<open>fl\<close> for the examples.\<close>

lemma fl_numeral: "(numeral w :: int) \<le> 2 ^ 53 \<Longrightarrow> fl (numeral w) = numeral w"
  using fl_of_int [of "numeral w"] by simp

lemma fl_cents_times10:
  "fl (30286707494066585 / 1125899906842624) = 3785838436758323 / 140737488355328"
  using fl_eval [of "30286707494066585 / 1125899906842624" 1026 7571676873516646]
  by (simp add: near_def)

lemma fl_cents_sum:
  "fl (3785838436758323 / 140737488355328) = 3785838436758323 / 140737488355328"
  using fl_eval [of "3785838436758323 / 140737488355328" 1026 7571676873516646]
  by (simp add: near_def)

lemma fl_tie_2_53: "fl 9007199254740993 = 9007199254740992"
  using fl_eval [of 9007199254740993 1075 4503599627370496]
  by (simp add: near_def)

section \<open>Lemmas about the connector\<close>

lemma run_append:
  "run (es @ es') c = (case run es c of None \<Rightarrow> None | Some c' \<Rightarrow> run es' c')"
  by (induction es arbitrary: c) (simp_all split: option.splits)

lemma step_timer_inv: "timer_inv c \<Longrightarrow> step e c = Some c' \<Longrightarrow> timer_inv c'"
  by (cases e)
     (auto simp add: timer_inv_def onopen_def onerror_def onclose_def reconnect_def
        connectToServer_def Let_def split: if_splits option.splits)

lemma run_timer_inv: "timer_inv c \<Longrightarrow> run es c = Some c' \<Longrightarrow> timer_inv c'"
  by (induction es arbitrary: c) (auto split: option.splits dest: step_timer_inv)

lemma initial_fresh: "fresh initialConnector"
  by (simp add: fresh_def initialConnector_def connectToServer_def)

lemma open_fresh: "timer_inv c \<Longrightarrow> step Open c = Some c' \<Longrightarrow> fresh c'"
  by (auto simp add: timer_inv_def fresh_def onopen_def split: if_splits)

text \<open>
  While no open event comes, the counter is the number of timers that have fired, it
  never passes the ceiling, and the pending timer is determined by it.
\<close>

lemma run_no_open:
  "fresh c0 \<Longrightarrow> Open \<notin> set es \<Longrightarrow> run es c0 = Some c \<Longrightarrow>
   reconnectAttempts c = retries es \<and> retries es \<le> maxReconnectAttempts \<and>
   (if socket c = Closed
    then drops es = retries es + 1 \<and> connectionStatus c = Disconnected \<and>
         timer c = (if retries es < maxReconnectAttempts
                    then Some (2 ^ retries es * 1000) else None)
    else drops es = retries es \<and> timer c = None)"
proof (induction es arbitrary: c rule: rev_induct)
  case Nil
  then show ?case by (simp add: fresh_def drops_def retries_def)
next
  case (snoc e es)
  from snoc.prems(3) obtain c1 where c1: "run es c0 = Some c1" and st: "step e c1 = Some c"
    by (auto simp add: run_append split: option.splits)
  from snoc.prems(2) have no: "Open \<notin> set es" and ne: "e \<noteq> Open" by auto
  from snoc.IH [OF snoc.prems(1) no c1] st ne
  show ?case
    by (cases e)
       (auto simp add: drops_def retries_def onerror_def onclose_def reconnect_def
          connectToServer_def Let_def maxReconnectAttempts_def
          split: if_splits option.splits)
qed

lemma start_fresh:
  assumes "run pre initialConnector = Some c0" and "pre = [] \<or> last pre = Open"
  shows "fresh c0 \<and> (pre \<noteq> [] \<longrightarrow> connectionStatus c0 = Connected)"
proof (cases "pre = []")
  case True
  with assms(1) initial_fresh show ?thesis by simp
next
  case False
  with assms(2) obtain pre' where pre: "pre = pre' @ [Open]"
    by (metis append_butlast_last_id)
  with assms(1) obtain c1 where c1: "run pre' initialConnector = Some c1"
    and st: "step Open c1 = Some c0"
    by (auto simp add: run_append split: option.splits)
  have ti: "timer_inv initialConnector"
    by (simp add: timer_inv_def initialConnector_def connectToServer_def)
  have "timer_inv c1" by (rule run_timer_inv [OF ti c1])
  then have "fresh c0" using st by (rule open_fresh)
  moreover from st have "connectionStatus c0 = Connected"
    by (auto simp add: onopen_def split: if_splits)
  ultimately show ?thesis by simp
qed

section \<open>Lemmas about anomaly detection\<close>

lemma filter_isNaN: "filter (\<lambda>amount. \<not> isNaN amount) amounts = numeric_subset amounts"
  by (induction amounts rule: numeric_subset.induct) (simp_all add: isNaN_def)

lemma foldl_sum_from: "foldl (\<lambda>sum amount. js_add sum (f amount)) acc xs = sum_from acc (map f xs)"
  by (induction xs arbitrary: acc) simp_all

lemma numeric_subset_Nil: "numeric_subset amounts = [] \<Longrightarrow> x \<in> set amounts \<Longrightarrow> x = NotANumber"
  by (induction amounts rule: numeric_subset.induct) auto

lemma identifyAnomalies_length:
  "length (identifyAnomalies Math_pow2 Math_sqrt amounts) = length amounts"
  by (simp add: identifyAnomalies_def Let_def)

lemma identifyAnomalies_valid:
  "numeric_subset amounts \<noteq> [] \<Longrightarrow>
   identifyAnomalies Math_pow2 Math_sqrt amounts =
     map (\<lambda>amount. js_gt amount (spec_threshold Math_pow2 Math_sqrt (numeric_subset amounts)))
       amounts"
  using foldl_sum_from [of "\<lambda>x. x" "Finite 0" "numeric_subset amounts"]
  by (cases amounts)
     (simp_all add: identifyAnomalies_def Let_def filter_isNaN foldl_sum_from spec_mean_def
        spec_stddev_def spec_threshold_def)

lemma identifyAnomalies_degenerate:
  "numeric_subset amounts = [] \<Longrightarrow>
   identifyAnomalies Math_pow2 Math_sqrt amounts = map (\<lambda>_. False) amounts"
  by (simp add: identifyAnomalies_def Let_def filter_isNaN)

lemma rd_step1: "round_double (41 / 5) = Finite (2308094809027379 / 281474976710656)"
  by (rule round_double_pos [where k = 1025 and m = 4616189618054758]) (simp_all add: near_def MAX_VALUE_def)

lemma rd_step2: "round_double (- (1182194902184755 / 281474976710656)) = Finite (- (1182194902184755 / 281474976710656))"
  by (rule round_double_neg [where k = 1024 and m = 4728779608739020]) (simp_all add: near_def MAX_VALUE_def)

lemma rd_step3: "round_double (1397584786751622442272154410025 / 79228162514264337593543950336) = Finite (2482609294587985 / 140737488355328)"
  by (rule round_double_pos [where k = 1026 and m = 4965218589175970]) (simp_all add: near_def MAX_VALUE_def)

lemma rd_step4: "round_double (2482609294587985 / 140737488355328) = Finite (2482609294587985 / 140737488355328)"
  by (rule round_double_pos [where k = 1026 and m = 4965218589175970]) (simp_all add: near_def MAX_VALUE_def)

lemma rd_step5: "round_double (2482609294587985 / 70368744177664) = Finite (2482609294587985 / 70368744177664)"
  by (rule round_double_pos [where k = 1027 and m = 4965218589175970]) (simp_all add: near_def MAX_VALUE_def)

lemma rd_step6: "round_double (7447827883763955 / 140737488355328) = Finite (7447827883763955 / 140737488355328)"
  by (rule round_double_pos [where k = 1027 and m = 7447827883763955]) (simp_all add: near_def MAX_VALUE_def)

lemma rd_step7: "round_double (2482609294587985 / 35184372088832) = Finite (2482609294587985 / 35184372088832)"
  by (rule round_double_pos [where k = 1028 and m = 4965218589175970]) (simp_all add: near_def MAX_VALUE_def)

lemma rd_step8: "round_double (4728779608739021 / 281474976710656) = Finite (4728779608739021 / 281474976710656)"
  by (rule round_double_pos [where k = 1026 and m = 4728779608739021]) (simp_all add: near_def MAX_VALUE_def)

lemma rd_step9: "round_double (22361356588025968533913688038441 / 79228162514264337593543950336) = Finite (1241304647293993 / 4398046511104)"
  by (rule round_double_pos [where k = 1030 and m = 4965218589175972]) (simp_all add: near_def MAX_VALUE_def)

lemma rd_step10: "round_double (12413046472939929 / 35184372088832) = Finite (1551630809117491 / 4398046511104)"
  by (rule round_double_pos [where k = 1030 and m = 6206523236469964]) (simp_all add: near_def MAX_VALUE_def)

lemma rd_step11: "round_double (1551630809117491 / 21990232555520) = Finite (4965218589175971 / 70368744177664)"
  by (rule round_double_pos [where k = 1028 and m = 4965218589175971]) (simp_all add: near_def MAX_VALUE_def)

lemma rd_step12: "round_double (1182194902184755 / 70368744177664) = Finite (1182194902184755 / 70368744177664)"
  by (rule round_double_pos [where k = 1026 and m = 4728779608739020]) (simp_all add: near_def MAX_VALUE_def)

lemma rd_step13: "round_double (7036874417766399 / 281474976710656) = Finite (7036874417766399 / 281474976710656)"
  by (rule round_double_pos [where k = 1026 and m = 7036874417766399]) (simp_all add: near_def MAX_VALUE_def)

lemma rd_sqrt:
  "round_double (sqrt (4965218589175971 / 70368744177664)) =
     Finite (1182194902184755 / 140737488355328)"
proof -
  define s where "s = sqrt (4965218589175971 / 70368744177664)"
  have lo: "9457559217478039 / 2 ^ 50 < s"
    unfolding s_def by (rule real_less_rsqrt) (simp add: power2_eq_square)
  have hi: "s < 9457559217478041 / 2 ^ 50"
    unfolding s_def by (rule real_less_lsqrt) (simp_all add: power2_eq_square)
  have "round_double s = Finite (1182194902184755 / 140737488355328)"
  proof (rule round_double_pos [where k = 1025 and m = 4728779608739020])
    from lo show "0 < s" by simp
    from lo show "2 ^ (52 + 1025) \<le> s * 2 ^ 1074" by simp
    from hi show "s * 2 ^ 1074 < 2 ^ (53 + 1025)" by simp
    from lo have "- (1 / 2) < s * 2 ^ 1074 / 2 ^ 1025 - 4728779608739020" by simp
    moreover from hi have "s * 2 ^ 1074 / 2 ^ 1025 - 4728779608739020 < 1 / 2" by simp
    ultimately have "\<bar>s * 2 ^ 1074 / 2 ^ 1025 - 4728779608739020\<bar> < 1 / 2"
      by (simp only: abs_less_iff) simp
    then show "near (s * 2 ^ 1074 / 2 ^ 1025) 4728779608739020"
      by (simp add: near_def)
  qed (simp_all add: MAX_VALUE_def)
  then show ?thesis by (simp only: s_def)
qed

lemma example_threshold:
  "spec_threshold square_rounded sqrt_rounded
     [Finite 4, Finite 4, Finite 4, Finite 4, Finite 25] =
   Finite (7036874417766399 / 281474976710656)"
  by (simp add: spec_threshold_def spec_stddev_def spec_mean_def square_rounded_def
        sqrt_rounded_def js_sub_def round_double_numeral round_double_0
        rd_step1 rd_step2 rd_step3 rd_step4 rd_step5 rd_step6 rd_step7 rd_step8 rd_step9
        rd_step10 rd_step11 rd_step12 rd_step13 rd_sqrt)

lemma sqrt_156816: "sqrt 156816 = 396"
  by (rule real_sqrt_unique) simp_all

lemma example_threshold_scenario:
  "spec_threshold square_rounded sqrt_rounded
     [Finite 10, Finite 10, Finite 10, Finite 10, Finite 1000] = Finite 1000"
  by (simp add: spec_threshold_def spec_stddev_def spec_mean_def square_rounded_def
        sqrt_rounded_def js_sub_def round_double_numeral round_double_neg_numeral
        round_double_0 sqrt_156816)

section \<open>Claims\<close>

text \<open>
  C1. For every Prediction \<open>p\<close>, \<open>isFlaggedAsFraud\<close> returns true if and only if at
  least one of the three model flags equals 1 (logistic, random_forest or xgboost), and
  it returns false when the Prediction is absent or null.
\<close>

theorem C1_isFlaggedAsFraud:
  "isFlaggedAsFraud (Some p) =
     (logistic p = Some 1 \<or> random_forest p = Some 1 \<or> xgboost p = Some 1)
   \<and> isFlaggedAsFraud None = False"
  by auto

theorem C1_isFlaggedAsFraud_witness:
  "isFlaggedAsFraud (Some (flags 0 0 1))
   \<and> \<not> isFlaggedAsFraud (Some \<lparr>logistic = Some 0, random_forest = None, xgboost = Some 2\<rparr>)
   \<and> \<not> isFlaggedAsFraud None"
  using C1_isFlaggedAsFraud [of "flags 0 0 1"]
    C1_isFlaggedAsFraud [of "\<lparr>logistic = Some 0, random_forest = None, xgboost = Some 2\<rparr>"]
  by (simp add: flags_def)

text \<open>
  C2. Every accepted message of the first shape (both \<^verbatim>\<open>predictions\<close> and
  \<^verbatim>\<open>transaction\<close> present, no truthy \<^verbatim>\<open>message\<close>) is handled without an exception;
  it appends exactly its prediction to the prediction log and exactly its transaction to
  the transaction log, adds 1 to \<^verbatim>\<open>total\<close>, adds 1 to \<^verbatim>\<open>flagged\<close> exactly when the
  classification rule holds for the new prediction, and adds \<^verbatim>\<open>Amount * 10\<close> to
  \<^verbatim>\<open>recentVolume\<close>, leaving it as it is when the Amount is absent. Product and sum
  are those of double arithmetic: \<^verbatim>\<open>recentVolume\<close> holds a double, the product is
  rounded, and so is the sum; the statement about \<^verbatim>\<open>recentVolume\<close> is made where
  neither overflows.
\<close>

theorem C2_shape1:
  assumes "\<not> truthy (data_message data)"
    and "data_predictions data = Some ps"
    and "data_transaction data = Some tx"
    and "fl (recentVolume (stats s)) = recentVolume (stats s)"
    and "case Amount tx of
           None \<Rightarrow> True
         | Some a \<Rightarrow> \<not> overflows (a * 10) \<and> \<not> overflows (recentVolume (stats s) + fl (a * 10))"
  shows "\<exists>s'. onmessage (JsonObject data) s = Inr s' \<and>
           predictions s' = predictions s @ [ps] \<and>
           transactions s' = transactions s @ [tx] \<and>
           total' (stats s') = total' (stats s) + 1 \<and>
           flagged (stats s') =
             flagged (stats s) + (if isFlaggedAsFraud (Some ps) then 1 else 0) \<and>
           recentVolume (stats s') =
             (case Amount tx of
                None \<Rightarrow> recentVolume (stats s)
              | Some a \<Rightarrow> fl (recentVolume (stats s) + fl (a * 10)))"
  using assms(1-4)
  by (cases "Amount tx")
     (simp_all add: dispatch_shape1 updateStats_predictions_def jsnum_or0_times10)

theorem C2_shape1_witness:
  "(\<exists>s'. onmessage (JsonObject msg_predictions) initialState = Inr s' \<and>
         predictions s' = [flags 0 0 1] \<and> transactions s' = [tx_amount 50] \<and>
         total' (stats s') = 1 \<and> flagged (stats s') = 1 \<and> recentVolume (stats s') = 500)
   \<and> \<not> overflows (6057341498813317 / 2251799813685248 * 10)
   \<and> (\<exists>s'. onmessage (JsonObject msg_cents) initialState = Inr s' \<and>
         total' (stats s') = 1 \<and> flagged (stats s') = 0 \<and>
         recentVolume (stats s') = 3785838436758323 / 140737488355328)"
  using C2_shape1 [of msg_predictions "flags 0 0 1" "tx_amount 50" initialState]
    C2_shape1 [of msg_cents "flags 0 0 0" "tx_amount (6057341498813317 / 2251799813685248)"
      initialState]
  by (simp add: msg_predictions_def msg_cents_def initialState_def flags_def tx_amount_def
        overflows_def MAX_VALUE_def fl_zero fl_numeral fl_cents_times10 fl_cents_sum)

text \<open>
  C3. Every message of the second shape (it does not match the first shape, carries a
  \<^verbatim>\<open>prediction\<close> and no truthy \<^verbatim>\<open>message\<close>) is handled without an exception and
  appends its prediction to the prediction log. When it carries a transaction, the
  transaction is appended to the transaction log, \<^verbatim>\<open>total\<close> grows by 1, \<^verbatim>\<open>flagged\<close>
  grows by 1 exactly when the classification rule holds for the prediction, and the
  Amount itself is added to \<^verbatim>\<open>recentVolume\<close>, which stays as it is when the Amount is
  absent. The sum is the one of double arithmetic: \<^verbatim>\<open>recentVolume\<close> holds a double
  and the sum is rounded; the statement about \<^verbatim>\<open>recentVolume\<close> is made where the sum
  does not overflow. When the message carries no transaction, the transaction log and
  the three statistics are unchanged.
\<close>

theorem C3_shape2:
  assumes "\<not> truthy (data_message data)"
    and "shape2 data"
    and "data_prediction data = Some p"
    and "fl (recentVolume (stats s)) = recentVolume (stats s)"
    and "case data_transaction data of
           None \<Rightarrow> True
         | Some tx \<Rightarrow>
             (case Amount tx of
                None \<Rightarrow> True
              | Some a \<Rightarrow> \<not> overflows (recentVolume (stats s) + a))"
  shows "\<exists>s'. onmessage (JsonObject data) s = Inr s' \<and>
           predictions s' = predictions s @ [p] \<and>
           (case data_transaction data of
              None \<Rightarrow> transactions s' = transactions s \<and> stats s' = stats s
            | Some tx \<Rightarrow>
                transactions s' = transactions s @ [tx] \<and>
                total' (stats s') = total' (stats s) + 1 \<and>
                flagged (stats s') =
                  flagged (stats s) + (if isFlaggedAsFraud (Some p) then 1 else 0) \<and>
                recentVolume (stats s') =
                  (case Amount tx of
                     None \<Rightarrow> recentVolume (stats s)
                   | Some a \<Rightarrow> fl (recentVolume (stats s) + a)))"
proof (cases "data_transaction data")
  case None
  with assms(1-3) show ?thesis
    by (simp add: dispatch_shape2_bare)
next
  case (Some tx)
  from assms(2) Some have "data_predictions data = None"
    by (simp add: shape2_def shape1_def)
  with assms(1-4) Some show ?thesis
    by (cases "Amount tx")
       (simp_all add: dispatch_shape2_tx updateStats_prediction_def amount_or0_eq)
qed

theorem C3_shape2_witness:
  "(\<exists>s'. onmessage (JsonObject msg_prediction) initialState = Inr s' \<and>
         predictions s' = [flags 0 0 0] \<and> transactions s' = [tx_amount 200] \<and>
         total' (stats s') = 1 \<and> flagged (stats s') = 0 \<and> recentVolume (stats s') = 200)
   \<and> (\<exists>s'. onmessage (JsonObject msg_bare) initialState = Inr s' \<and>
         predictions s' = [flags 1 0 0] \<and> transactions s' = [] \<and>
         total' (stats s') = 0 \<and> flagged (stats s') = 0 \<and> recentVolume (stats s') = 0)
   \<and> \<not> overflows (recentVolume (stats state_2_53) + 1)
   \<and> (\<exists>s'. onmessage (JsonObject msg_one) state_2_53 = Inr s' \<and>
         total' (stats s') = 1 \<and> recentVolume (stats s') = 9007199254740992)"
  using C3_shape2 [of msg_prediction "flags 0 0 0" initialState]
    C3_shape2 [of msg_bare "flags 1 0 0" initialState]
    C3_shape2 [of msg_one "flags 0 0 0" state_2_53]
  by (simp add: msg_prediction_def msg_bare_def msg_one_def initialState_def state_2_53_def
        shape2_def shape1_def flags_def tx_amount_def overflows_def MAX_VALUE_def
        fl_zero fl_numeral fl_tie_2_53)

text \<open>
  C4. The reconnection protocol. Take a connector that has just been started or has
  just opened (so its retry counter is zero, and the status is connected after an open),
  and let events follow among which there is no further open. After the \<open>n\<close>-th close
  among them the status is disconnected; \<open>n\<close> is at most 6; for \<open>n\<close> from 1 to 5 the
  timer that was set has the delay \<open>2 ^ (n - 1)\<close> seconds (1000, 2000, 4000, 8000,
  16000 milliseconds), and when it fires the counter grows by one and a new connection
  is attempted; for \<open>n = 6\<close>, that is once five retries have failed, no timer is set,
  no event can happen any more, and so the status stays disconnected.
\<close>

theorem C4_reconnection:
  assumes "run pre initialConnector = Some c0" and "pre = [] \<or> last pre = Open"
    and "Open \<notin> set es"
    and "run (es @ [Close]) c0 = Some c"
  shows "reconnectAttempts c0 = 0 \<and> (pre \<noteq> [] \<longrightarrow> connectionStatus c0 = Connected) \<and>
         connectionStatus c = Disconnected \<and>
         drops (es @ [Close]) \<le> 6 \<and>
         (drops (es @ [Close]) \<le> 5 \<longrightarrow>
            timer c = Some (2 ^ (drops (es @ [Close]) - 1) * 1000) \<and>
            (\<exists>c'. step Timeout c = Some c' \<and>
                  reconnectAttempts c' = reconnectAttempts c + 1 \<and>
                  connectionStatus c' = Connecting)) \<and>
         (drops (es @ [Close]) = 6 \<longrightarrow>
            timer c = None \<and> (\<forall>e. step e c = None) \<and>
            (\<forall>es'. es' \<noteq> [] \<longrightarrow> run es' c = None))"
proof -
  from start_fresh [OF assms(1,2)]
  have fr: "fresh c0" and op: "pre \<noteq> [] \<longrightarrow> connectionStatus c0 = Connected" by simp_all
  from assms(3) have no: "Open \<notin> set (es @ [Close])" by simp
  from assms(4) have cl: "socket c = Closed"
    by (auto simp add: run_append onclose_def Let_def split: option.splits if_splits)
  from run_no_open [OF fr no assms(4)] cl
  have main: "reconnectAttempts c = retries (es @ [Close])"
    "retries (es @ [Close]) \<le> maxReconnectAttempts"
    "drops (es @ [Close]) = retries (es @ [Close]) + 1"
    "connectionStatus c = Disconnected"
    "timer c = (if retries (es @ [Close]) < maxReconnectAttempts
                then Some (2 ^ retries (es @ [Close]) * 1000) else None)"
    by simp_all
  have stuck: "\<forall>e. step e c = None" if "timer c = None"
  proof
    fix e show "step e c = None" using that cl by (cases e) simp_all
  qed
  have stuck': "\<forall>es'. es' \<noteq> [] \<longrightarrow> run es' c = None" if "timer c = None"
  proof (intro allI impI)
    fix es' :: "event list" assume "es' \<noteq> []"
    then obtain e es'' where "es' = e # es''" by (cases es') auto
    with stuck [OF that] show "run es' c = None" by simp
  qed
  from fr have "reconnectAttempts c0 = 0" by (simp add: fresh_def)
  with op main stuck stuck' show ?thesis
    by (auto simp add: maxReconnectAttempts_def reconnect_def connectToServer_def)
qed

theorem C4_reconnection_witness:
  "run ([] @ [Close]) initialConnector =
     Some \<lparr>reconnectAttempts = 0, connectionStatus = Disconnected, socket = Closed,
           timer = Some 1000\<rparr>
   \<and> run ([Close, Timeout] @ [Close]) initialConnector =
     Some \<lparr>reconnectAttempts = 1, connectionStatus = Disconnected, socket = Closed,
           timer = Some 2000\<rparr>
   \<and> run ([Close, Timeout, Error, Close, Timeout] @ [Close]) initialConnector =
     Some \<lparr>reconnectAttempts = 2, connectionStatus = Disconnected, socket = Closed,
           timer = Some 4000\<rparr>
   \<and> run ([Close, Timeout, Close, Timeout, Close, Timeout] @ [Close]) initialConnector =
     Some \<lparr>reconnectAttempts = 3, connectionStatus = Disconnected, socket = Closed,
           timer = Some 8000\<rparr>
   \<and> run ([Close, Timeout, Close, Timeout, Close, Timeout, Close, Timeout] @ [Close])
       initialConnector =
     Some \<lparr>reconnectAttempts = 4, connectionStatus = Disconnected, socket = Closed,
           timer = Some 16000\<rparr>
   \<and> run ([Close, Timeout, Close, Timeout, Close, Timeout, Close, Timeout, Close, Timeout]
          @ [Close]) initialConnector =
     Some \<lparr>reconnectAttempts = 5, connectionStatus = Disconnected, socket = Closed,
           timer = None\<rparr>
   \<and> step Timeout \<lparr>reconnectAttempts = 5, connectionStatus = Disconnected, socket = Closed,
           timer = None\<rparr> = None
   \<and> run [Close, Timeout, Close, Timeout, Open] initialConnector =
     Some \<lparr>reconnectAttempts = 0, connectionStatus = Connected, socket = Opened,
           timer = None\<rparr>
   \<and> run ([] @ [Close])
       \<lparr>reconnectAttempts = 0, connectionStatus = Connected, socket = Opened, timer = None\<rparr> =
     Some \<lparr>reconnectAttempts = 0, connectionStatus = Disconnected, socket = Closed,
           timer = Some 1000\<rparr>"
  using C4_reconnection [of "[]" initialConnector
      "[Close, Timeout, Close, Timeout, Close, Timeout, Close, Timeout, Close, Timeout]"
      "\<lparr>reconnectAttempts = 5, connectionStatus = Disconnected, socket = Closed,
           timer = None\<rparr>"]
    C4_reconnection [of "[Close, Timeout, Close, Timeout, Open]"
      "\<lparr>reconnectAttempts = 0, connectionStatus = Connected, socket = Opened, timer = None\<rparr>"
      "[]"
      "\<lparr>reconnectAttempts = 0, connectionStatus = Disconnected, socket = Closed,
           timer = Some 1000\<rparr>"]
  by (simp add: initialConnector_def connectToServer_def onopen_def onerror_def onclose_def
        reconnect_def maxReconnectAttempts_def Let_def drops_def)




text \<open>
  C6. The display predicates. As stated, with the display status at an index below the
  length of the prediction log equal to the Prediction-based classification whatever
  the Class, V1 and Amount, the claim fails: both components look at \<^verbatim>\<open>Class\<close> first,
  and \<^verbatim>\<open>FraudAlerts\<close> goes on to V1 and Amount when the prediction flags nothing.
  What holds at an index below the length of the prediction
  log: \<^verbatim>\<open>isFraudulent\<close> of the transaction table is true exactly when Class is 1 or
  the Prediction-based classification is true, whatever V1 and Amount are; the filter
  of the alert panel is true exactly when the Prediction-based classification is true
  or one of the three other signals (Class is 1, V1 below -3, Amount above 1000) holds;
  so neither ever turns a positive Prediction-based result into a negative one. At an
  index with no prediction both are the three other signals alone.
\<close>

theorem C6_display_status:
  "(i < length preds \<longrightarrow>
      isFraudulent preds t i = (Class t = Some 1 \<or> isFlaggedAsFraud (Some (preds ! i))) \<and>
      fraudulentTransactions_filter preds t i =
        (isFlaggedAsFraud (Some (preds ! i)) \<or> fallback_fraud t)) \<and>
   (\<not> i < length preds \<longrightarrow>
      isFraudulent preds t i = fallback_fraud t \<and>
      fraudulentTransactions_filter preds t i = fallback_fraud t)"
  by (auto simp add: isFraudulent_def fraudulentTransactions_filter_def fallback_fraud_def Let_def)

theorem C6_display_status_witness:
  "(0::nat) < length [flags 0 0 0]
   \<and> \<not> isFraudulent [flags 0 0 0] (tx_amount 2000) 0
   \<and> fraudulentTransactions_filter [flags 0 0 0] (tx_amount 2000) 0
   \<and> \<not> (1::nat) < length [flags 0 0 0]
   \<and> isFraudulent [flags 0 0 0] (tx_amount 2000) 1
   \<and> fraudulentTransactions_filter [flags 0 0 0] (tx_amount 2000) 1"
  using C6_display_status [of 0 "[flags 0 0 0]" "tx_amount 2000"]
    C6_display_status [of 1 "[flags 0 0 0]" "tx_amount 2000"]
  by (simp add: fallback_fraud_def flags_def tx_amount_def)

theorem C6_counterexample:
  "(0::nat) < length [flags 0 0 0]
   \<and> isFraudulent [flags 0 0 0]
       \<lparr>transaction_id = None, Time = None, Amount = Some 50, Class = Some 1, V1 = None\<rparr> 0
   \<and> fraudulentTransactions [tx_amount 2000] [flags 0 0 0] = [tx_amount 2000]
   \<and> \<not> isFlaggedAsFraud (Some ([flags 0 0 0] ! 0))"
  by (simp add: isFraudulent_def fraudulentTransactions_def fraudulentTransactions_filter_def
        flags_def tx_amount_def)

text \<open>
  C7. For every list of amounts, \<open>identifyAnomalies\<close> returns one flag per amount, and
  the flag at position \<open>i\<close> is true if and only if the amount there strictly exceeds the
  mean plus twice the population standard deviation, both taken over the amounts that
  are not NaN, with every operation the one of double arithmetic and whatever the
  engine returns for \<^verbatim>\<open>Math.pow\<close> and \<^verbatim>\<open>Math.sqrt\<close>. A NaN amount exceeds nothing.
  If the list is empty or every amount is NaN, every flag is false; the function
  divides only by the positive number of amounts that are not NaN.
\<close>

theorem C7_identifyAnomalies:
  "length (identifyAnomalies Math_pow2 Math_sqrt amounts) = length amounts \<and>
   (\<forall>i < length amounts.
      identifyAnomalies Math_pow2 Math_sqrt amounts ! i =
        (numeric_subset amounts \<noteq> [] \<and>
         js_gt (amounts ! i) (spec_threshold Math_pow2 Math_sqrt (numeric_subset amounts)))) \<and>
   (numeric_subset amounts = [] \<longrightarrow>
      (\<forall>i < length amounts. identifyAnomalies Math_pow2 Math_sqrt amounts ! i = False))"
proof (cases "numeric_subset amounts = []")
  case True
  then show ?thesis
    by (simp add: identifyAnomalies_length identifyAnomalies_degenerate)
next
  case False
  then show ?thesis
    by (simp add: identifyAnomalies_length identifyAnomalies_valid)
qed

theorem C7_identifyAnomalies_witness:
  "identifyAnomalies square_rounded sqrt_rounded
     [NotANumber, Finite 4, Finite 4, Finite 4, Finite 4, Finite 25] ! 5
   \<and> \<not> identifyAnomalies square_rounded sqrt_rounded
         [NotANumber, Finite 4, Finite 4, Finite 4, Finite 4, Finite 25] ! 0
   \<and> \<not> identifyAnomalies square_rounded sqrt_rounded
         [NotANumber, Finite 4, Finite 4, Finite 4, Finite 4, Finite 25] ! 1
   \<and> spec_threshold square_rounded sqrt_rounded
       (numeric_subset [NotANumber, Finite 4, Finite 4, Finite 4, Finite 4, Finite 25]) =
     Finite (7036874417766399 / 281474976710656)
   \<and> \<not> identifyAnomalies square_rounded sqrt_rounded
         [Finite 10, Finite 10, Finite 10, Finite 10, Finite 1000] ! 4
   \<and> \<not> identifyAnomalies square_rounded sqrt_rounded [NotANumber, NotANumber] ! 0
   \<and> length (identifyAnomalies square_rounded sqrt_rounded [NotANumber, NotANumber]) = 2
   \<and> identifyAnomalies square_rounded sqrt_rounded [] = []"
  using C7_identifyAnomalies [of square_rounded sqrt_rounded
      "[NotANumber, Finite 4, Finite 4, Finite 4, Finite 4, Finite 25]"]
    C7_identifyAnomalies [of square_rounded sqrt_rounded
      "[Finite 10, Finite 10, Finite 10, Finite 10, Finite 1000]"]
    C7_identifyAnomalies [of square_rounded sqrt_rounded "[NotANumber, NotANumber]"]
    C7_identifyAnomalies [of square_rounded sqrt_rounded "[]"]
  by (simp add: example_threshold example_threshold_scenario)

text \<open>
  C8. Messages that match neither shape. As stated, with every such message dropped
  silently and not treated as an error, the claim fails: the frame \<^verbatim>\<open>null\<close> matches
  neither shape and the handler throws a TypeError on it. What
  holds: every delivered frame that matches neither shape, a pure status message
  included, leaves the two logs and the three statistics unchanged; the handler
  returns normally on it unless the frame is not JSON (SyntaxError from
  \<^verbatim>\<open>JSON.parse\<close>) or decodes to \<^verbatim>\<open>null\<close> (TypeError from \<^verbatim>\<open>data.message\<close>), and
  these two exceptions are thrown before any update.
\<close>

theorem C8_unmatched_frame:
  assumes "\<not> frame_shape1 ev" and "\<not> frame_shape2 ev"
  shows "deliver s ev = s \<and>
         onmessage ev s =
           (case ev of NotJSON \<Rightarrow> Inl SyntaxError | JsonNull \<Rightarrow> Inl TypeError | _ \<Rightarrow> Inr s)"
  using assms
  by (cases ev) (simp_all add: deliver_def frame_shape1_def frame_shape2_def dispatch_neither)

theorem C8_unmatched_frame_witness:
  "\<not> frame_shape1 (JsonObject msg_status) \<and> \<not> frame_shape2 (JsonObject msg_status)
   \<and> deliver initialState (JsonObject msg_status) = initialState
   \<and> onmessage (JsonObject msg_status) initialState = Inr initialState"
  using C8_unmatched_frame [of "JsonObject msg_status" initialState]
  by (simp add: frame_shape1_def frame_shape2_def shape1_def shape2_def msg_status_def)

theorem C8_counterexample:
  "\<not> frame_shape1 JsonNull \<and> \<not> frame_shape2 JsonNull \<and>
   onmessage JsonNull initialState = Inl TypeError \<and>
   onmessage JsonNull initialState \<noteq> Inr initialState"
  by (simp add: frame_shape1_def frame_shape2_def)

text \<open>
  C9. The statistics evolve monotonically. For the statistics after any sequence of
  delivered frames and after any continuation of it: \<^verbatim>\<open>total\<close> and \<^verbatim>\<open>flagged\<close> have
  not decreased, \<open>0 \<le> flagged \<le> total\<close> holds, \<^verbatim>\<open>flagged\<close> has increased only if
  \<^verbatim>\<open>total\<close> has, and \<^verbatim>\<open>recentVolume\<close> has not decreased provided every Amount
  present in the continuation is non-negative.
\<close>

theorem C9_stats_monotone:
  "(let s1 = stats (deliver_all initialState evs);
        s2 = stats (deliver_all initialState (evs @ evs'))
    in total' s1 \<le> total' s2 \<and> flagged s1 \<le> flagged s2 \<and>
       0 \<le> flagged s2 \<and> flagged s2 \<le> total' s2 \<and>
       (flagged s1 < flagged s2 \<longrightarrow> total' s1 < total' s2) \<and>
       ((\<forall>ev \<in> set evs'. amount_nonneg ev) \<longrightarrow> recentVolume s1 \<le> recentVolume s2))"
proof -
  have init: "total' (stats initialState) = 0" "flagged (stats initialState) = 0"
    and init_volume: "fl (recentVolume (stats initialState)) = recentVolume (stats initialState)"
    by (simp_all add: initialState_def fl_zero)
  from deliver_all_stats [OF init_volume, of "evs @ evs'"] init
  have inv: "0 \<le> flagged (stats (deliver_all initialState (evs @ evs')))"
    "flagged (stats (deliver_all initialState (evs @ evs')))
       \<le> total' (stats (deliver_all initialState (evs @ evs')))"
    by simp_all
  from deliver_all_stats [OF init_volume, of evs]
  have volume: "fl (recentVolume (stats (deliver_all initialState evs))) =
      recentVolume (stats (deliver_all initialState evs))"
    by simp
  from deliver_all_stats [OF volume, of evs'] inv
  show ?thesis
    by (simp add: Let_def deliver_all_append)
qed

theorem C9_stats_monotone_witness:
  "stats (deliver_all initialState [JsonObject msg_prediction]) =
     \<lparr>total' = 1, flagged = 0, recentVolume = 200\<rparr>
   \<and> stats (deliver_all initialState
        ([JsonObject msg_prediction] @ [JsonObject msg_bare, JsonObject msg_predictions])) =
     \<lparr>total' = 2, flagged = 1, recentVolume = 700\<rparr>
   \<and> amount_nonneg (JsonObject msg_bare) \<and> amount_nonneg (JsonObject msg_predictions)"
  using C9_stats_monotone [of "[JsonObject msg_prediction]"
      "[JsonObject msg_bare, JsonObject msg_predictions]"]
  by (simp add: deliver_all_def deliver_def dispatch_def initialState_def amount_nonneg_def
        updateStats_predictions_def updateStats_prediction_def
        msg_prediction_def msg_bare_def msg_predictions_def flags_def tx_amount_def
        fl_zero fl_numeral)

text \<open>
  C10. The status field has precedence. A message whose \<^verbatim>\<open>message\<close> field is truthy
  changes neither the logs nor the statistics, whatever payloads it carries besides. A
  \<^verbatim>\<open>message\<close> field that is falsy, the empty string in particular, does not stop the
  message: it is handled exactly as the same message without the field.
\<close>

theorem C10_message_precedence:
  "(truthy (data_message data) \<longrightarrow> onmessage (JsonObject data) s = Inr s) \<and>
   \<not> truthy (Some (JStr [])) \<and>
   (\<not> truthy m \<longrightarrow>
      onmessage (JsonObject (data\<lparr>data_message := m\<rparr>)) s =
      onmessage (JsonObject (data\<lparr>data_message := None\<rparr>)) s)"
  by (simp add: dispatch_def split: option.splits prod.splits)

theorem C10_message_precedence_witness:
  "truthy (Some (JStr ''connected''))
   \<and> onmessage (JsonObject (msg_predictions\<lparr>data_message := Some (JStr ''connected'')\<rparr>))
       initialState = Inr initialState
   \<and> \<not> truthy (Some (JStr []))
   \<and> onmessage (JsonObject (msg_predictions\<lparr>data_message := Some (JStr [])\<rparr>)) initialState =
     Inr \<lparr>predictions = [flags 0 0 1], transactions = [tx_amount 50],
          stats = \<lparr>total' = 1, flagged = 1, recentVolume = 500\<rparr>\<rparr>"
  using C10_message_precedence [of "msg_predictions\<lparr>data_message := Some (JStr ''connected'')\<rparr>"
      initialState]
    C10_message_precedence [of msg_predictions initialState "Some (JStr [])"]
  by (simp add: dispatch_def initialState_def msg_predictions_def
        updateStats_predictions_def flags_def tx_amount_def
        fl_zero fl_numeral)

end
